theory Spec2Isabelle
  imports Complex_Main
begin

section \<open>Data model of the energy grid editor (UI.py)\<close>

text \<open>
  A \<open>Node\<close> object carries its type (one of the strings of \<open>NODE_IMAGES\<close>), the
  identifier of the canvas item that \<open>Node.draw\<close> created for it, and its energy.
  The node has no position attribute: positions live on the canvas and in
  \<open>node_coords\<close>.  Python floats are idealised as real numbers throughout, so every
  statement below is a statement about exact arithmetic.  A real stands for a finite
  double, and the idealisation follows the program only while no intermediate result
  leaves the range of the finite doubles: a result that bounds a computed value
  therefore carries a hypothesis on the magnitude of the energies.
\<close>

record node =
  node_type :: string
  item :: int
  energy :: real

text \<open>The dictionary \<open>grid_topology = {'nodes': [...], 'connections': [...]}\<close>.\<close>

record topology =
  nodes :: "node list"
  connections :: "(int \<times> int) list"

text \<open>Exceptions that the modelled code can raise.\<close>

datatype py_error = ZeroDivisionError | ValueError | IndexError

text \<open>Python's \<open>a / b\<close> on numbers: raises on a zero divisor.\<close>

definition truediv :: "real \<Rightarrow> real \<Rightarrow> py_error + real" where
  "truediv a b = (if b = 0 then Inl ZeroDivisionError else Inr (a / b))"

text \<open>
  The largest finite double, \<open>(2 - 2^-52) * 2^1023\<close>.  A difference of two doubles
  whose exact value is larger in magnitude overflows to an infinity.
\<close>

definition max_float :: real where
  "max_float = (2 ^ 53 - 1) * 2 ^ 971"

section \<open>GridSimulator\<close>

text \<open>\<open>next((node for node in nodes if node.item == i), None)\<close>\<close>

definition find_node :: "node list \<Rightarrow> int \<Rightarrow> node option" where
  "find_node ns i = List.find (\<lambda>n. item n = i) ns"

text \<open>
  The body of the \<open>for start, end in connections\<close> loop of
  \<open>calculate_path_efficiency\<close>, with \<open>total_efficiency\<close> as accumulator.  A Node
  object is always truthy, so \<open>if start_node and end_node\<close> tests that both lookups
  found a node.
\<close>

fun path_loop :: "node list \<Rightarrow> (int \<times> int) list \<Rightarrow> real \<Rightarrow> py_error + real" where
  "path_loop ns [] total_efficiency = Inr total_efficiency"
| "path_loop ns ((start, end) # cs) total_efficiency =
     (case find_node ns start of
        None \<Rightarrow> path_loop ns cs total_efficiency
      | Some start_node \<Rightarrow>
          (case find_node ns end of
             None \<Rightarrow> path_loop ns cs total_efficiency
           | Some end_node \<Rightarrow>
               (let energy_diff = \<bar>energy start_node - energy end_node\<bar> in
                case truediv energy_diff
                       (max \<bar>energy start_node\<bar> (max \<bar>energy end_node\<bar> 1)) of
                  Inl e \<Rightarrow> Inl e
                | Inr q \<Rightarrow> path_loop ns cs (total_efficiency + (1 - q)))))"

definition calculate_path_efficiency :: "topology \<Rightarrow> py_error + real" where
  "calculate_path_efficiency t =
     (if connections t = [] then Inr 0.5
      else
        (let connection_count = length (connections t) in
         case path_loop (nodes t) (connections t) 0 of
           Inl e \<Rightarrow> Inl e
         | Inr total_efficiency \<Rightarrow>
             if connection_count > 0
             then truediv total_efficiency (real connection_count)
             else Inr 0.5))"

definition producer_types :: "string list" where
  "producer_types =
     [''Generator'', ''Coal Plant'', ''Natural Gas'', ''Nuclear Plant'', ''Petroleum'', ''Hydro'']"

definition consumer_types :: "string list" where
  "consumer_types = [''City'', ''Building'']"

text \<open>The dictionary returned by \<open>simulate_performance\<close>.\<close>

record performance =
  total_energy_output :: real
  total_energy_demand :: real
  average_efficiency :: real
  load_balance :: real

definition total_energy :: "topology \<Rightarrow> real" where
  "total_energy t =
     sum_list (map energy (filter (\<lambda>n. node_type n \<in> set producer_types) (nodes t)))"

definition total_demand :: "topology \<Rightarrow> real" where
  "total_demand t =
     sum_list (map energy (filter (\<lambda>n. node_type n \<in> set consumer_types) (nodes t)))"

definition simulate_performance :: "topology \<Rightarrow> py_error + performance" where
  "simulate_performance t =
     (case calculate_path_efficiency t of
        Inl e \<Rightarrow> Inl e
      | Inr efficiency \<Rightarrow>
          (case truediv (total_energy t) (total_demand t + 0.001) of
             Inl e \<Rightarrow> Inl e
           | Inr q \<Rightarrow>
               (let load_balance = min 1.0 q in
                Inr \<lparr> total_energy_output = total_energy t * efficiency,
                      total_energy_demand = total_demand t,
                      average_efficiency = efficiency * 100,
                      load_balance = load_balance * 100 \<rparr>)))"

text \<open>
  \<open>GridApp.simulate_performance\<close>: the button handler refuses an empty node list
  (a warning box, modelled as \<open>None\<close>) and otherwise runs the simulator; the
  formatting of the result into the output label is not modelled.
\<close>

definition GridApp_simulate_performance ::
  "topology \<Rightarrow> (py_error + performance) option" where
  "GridApp_simulate_performance t =
     (if nodes t = [] then None else Some (simulate_performance t))"

section \<open>The canvas\<close>

text \<open>
  The Tk canvas is not code of the repository; it is modelled by what the
  application relies on.  Every item has an integer identifier, handed out in
  increasing order starting at 1 and never reused, a tuple of tags, and a list of
  coordinates.  The tags that the application uses are the node type, \<open>"node"\<close>,
  \<open>"energy"\<close>, \<open>"energy_<item>"\<close>, \<open>"connection"\<close> and \<open>"grid"\<close>.  The list
  \<open>items\<close> is the display list, lowest item first.  All coordinates that the
  application passes are whole numbers, so they are integers here; the text of a
  label and the colour of an item are not modelled.
\<close>

datatype tag =
  Tag_node_type string | Tag_node | Tag_energy | Tag_energy_of int | Tag_connection | Tag_grid

record canvas_item =
  tags :: "tag list"
  coords :: "int list"

record tk_canvas =
  next_id :: int
  items :: "(int \<times> canvas_item) list"

text \<open>
  \<open>create_image\<close>, \<open>create_rectangle\<close>, \<open>create_text\<close> and \<open>create_line\<close>: a new
  item on top of the display list; the identifier is returned.
\<close>

definition canvas_create :: "tk_canvas \<Rightarrow> tag list \<Rightarrow> int list \<Rightarrow> int \<times> tk_canvas" where
  "canvas_create c ts cs =
     (next_id c,
      c\<lparr> next_id := next_id c + 1,
         items := items c @ [(next_id c, \<lparr> tags = ts, coords = cs \<rparr>)] \<rparr>)"

text \<open>\<open>canvas.delete(item)\<close> with an identifier, and with a tag.\<close>

definition canvas_delete :: "tk_canvas \<Rightarrow> int \<Rightarrow> tk_canvas" where
  "canvas_delete c i = c\<lparr> items := filter (\<lambda>p. fst p \<noteq> i) (items c) \<rparr>"

definition canvas_delete_tag :: "tk_canvas \<Rightarrow> tag \<Rightarrow> tk_canvas" where
  "canvas_delete_tag c t = c\<lparr> items := filter (\<lambda>p. t \<notin> set (tags (snd p))) (items c) \<rparr>"

text \<open>
  \<open>canvas.coords(item)\<close> reads the coordinates (the empty list when there is no
  such item); \<open>canvas.coords(item, ...)\<close> replaces them.
\<close>

definition canvas_coords :: "tk_canvas \<Rightarrow> int \<Rightarrow> int list" where
  "canvas_coords c i = (case map_of (items c) i of None \<Rightarrow> [] | Some it \<Rightarrow> coords it)"

definition canvas_set_coords :: "tk_canvas \<Rightarrow> int \<Rightarrow> int list \<Rightarrow> tk_canvas" where
  "canvas_set_coords c i cs =
     c\<lparr> items := map (\<lambda>p. if fst p = i then (fst p, (snd p)\<lparr> coords := cs \<rparr>) else p) (items c) \<rparr>"

definition canvas_find_withtag :: "tk_canvas \<Rightarrow> tag \<Rightarrow> int list" where
  "canvas_find_withtag c t = map fst (filter (\<lambda>p. t \<in> set (tags (snd p))) (items c))"

definition canvas_tag_lower :: "tk_canvas \<Rightarrow> int \<Rightarrow> tk_canvas" where
  "canvas_tag_lower c i =
     c\<lparr> items := filter (\<lambda>p. fst p = i) (items c) @ filter (\<lambda>p. fst p \<noteq> i) (items c) \<rparr>"

text \<open>
  Two answers come from outside the program: whether the image file of a node type
  can be loaded (\<open>Node.load_image\<close> returns an image or \<open>None\<close>), and which items
  Tk reports as overlapping a rectangle (\<open>canvas.find_overlapping\<close>, which depends
  on the rendered size of images and text).  Both are parameters of the model.
\<close>

record tk_env =
  image_loads :: "string \<Rightarrow> bool"
  find_overlapping :: "tk_canvas \<Rightarrow> int list \<Rightarrow> int list"

text \<open>
  \<open>Node.__init__\<close> with \<open>Node.draw\<close>: the constructor draws the node, which creates
  a fresh image (or a grey rectangle when there is no image) and a fresh text item
  for the energy label, and stores the identifier of the first as \<open>self.item\<close>.
\<close>

definition Node_init ::
  "tk_env \<Rightarrow> tk_canvas \<Rightarrow> string \<Rightarrow> int \<Rightarrow> int \<Rightarrow> real \<Rightarrow> node \<times> tk_canvas" where
  "Node_init env c nt x y e =
     (let size = 50;
          (it, c1) =
            (if image_loads env nt
             then canvas_create c [Tag_node_type nt, Tag_node] [x, y]
             else canvas_create c [Tag_node_type nt, Tag_node] [x, y, x + size, y + size]);
          (txt, c2) =
            canvas_create c1 [Tag_energy, Tag_energy_of it] [x + size div 2, y + size + 10]
      in (\<lparr> node_type = nt, item = it, energy = e \<rparr>, c2))"

section \<open>GridApp\<close>

text \<open>
  The part of the application state that the editing operations read and write.
  \<open>node_type_var\<close> is the selection of the node type menu.
\<close>

record app =
  grid_topology :: topology
  node_type_var :: string
  node_coords :: "int \<rightharpoonup> int \<times> int"
  canvas :: tk_canvas

definition GRID_SIZE :: int where
  "GRID_SIZE = 50"

text \<open>
  \<open>round(v / g)\<close> for integers \<open>v\<close> and a positive \<open>g\<close>: Python rounds a tie to the
  even neighbour.
\<close>

definition py_round_div :: "int \<Rightarrow> int \<Rightarrow> int" where
  "py_round_div v g =
     (let q = v div g; r = v mod g
      in if 2 * r < g then q else if 2 * r > g then q + 1 else if even q then q else q + 1)"

text \<open>\<open>range(0, stop, step)\<close> for a positive step.\<close>

definition range_step :: "int \<Rightarrow> int \<Rightarrow> int list" where
  "range_step stop step = map (\<lambda>k. int k * step) [0..<nat ((stop + step - 1) div step)]"

text \<open>
  \<open>draw_grid\<close> for a canvas of the given width and height (the reentrancy flag
  \<open>is_drawing_grid\<close> is always clear when a handler starts).
\<close>

definition draw_grid :: "tk_canvas \<Rightarrow> int \<Rightarrow> int \<Rightarrow> tk_canvas" where
  "draw_grid c width height =
     (let c1 = canvas_delete_tag c Tag_grid;
          c2 = fold (\<lambda>x c. snd (canvas_create c [Tag_grid] [x, 0, x, height]))
                 (range_step width GRID_SIZE) c1
      in fold (\<lambda>y c. snd (canvas_create c [Tag_grid] [0, y, width, y]))
           (range_step height GRID_SIZE) c2)"

text \<open>
  \<open>GridApp.__init__\<close>: \<open>setup_variables\<close> followed by \<open>create_canvas\<close>, which draws
  the grid on the new canvas.
\<close>

definition GridApp_init :: "int \<Rightarrow> int \<Rightarrow> app" where
  "GridApp_init width height =
     \<lparr> grid_topology = \<lparr> nodes = [], connections = [] \<rparr>,
       node_type_var = ''Generator'',
       node_coords = Map.empty,
       canvas = draw_grid \<lparr> next_id = 1, items = [] \<rparr> width height \<rparr>"

text \<open>\<open>add_node(event)\<close> with the pointer position of the event.\<close>

definition add_node :: "tk_env \<Rightarrow> app \<Rightarrow> int \<Rightarrow> int \<Rightarrow> app" where
  "add_node env a event_x event_y =
     (let snapped_x = py_round_div event_x GRID_SIZE * GRID_SIZE;
          snapped_y = py_round_div event_y GRID_SIZE * GRID_SIZE;
          (new_node, c) = Node_init env (canvas a) (node_type_var a) snapped_x snapped_y 0
      in if item new_node \<noteq> 0
         then a\<lparr> grid_topology :=
                   (grid_topology a)\<lparr> nodes := nodes (grid_topology a) @ [new_node] \<rparr>,
                 node_coords := (node_coords a)(item new_node \<mapsto> (snapped_x, snapped_y)),
                 canvas := c \<rparr>
         else a\<lparr> canvas := c \<rparr>)"

text \<open>
  \<open>set_node_energy\<close>: \<open>current\<close> is the answer of \<open>find_withtag("current")\<close> and
  \<open>answer\<close> that of the dialog (\<open>None\<close> when cancelled).  \<open>Node.update_energy\<close>
  mutates the node object that the lookup found, that is the first node of the list
  with that item.
\<close>

fun update_energy_of :: "node list \<Rightarrow> int \<Rightarrow> real \<Rightarrow> node list" where
  "update_energy_of [] i e = []"
| "update_energy_of (n # ns) i e =
     (if item n = i then n\<lparr> energy := e \<rparr> # ns else n # update_energy_of ns i e)"

definition set_node_energy :: "app \<Rightarrow> int list \<Rightarrow> real option \<Rightarrow> py_error + app" where
  "set_node_energy a current answer =
     (case current of
        [] \<Rightarrow> Inl IndexError
      | i # _ \<Rightarrow>
          (case find_node (nodes (grid_topology a)) i of
             None \<Rightarrow> Inr a
           | Some n \<Rightarrow>
               (case answer of
                  None \<Rightarrow> Inr a
                | Some e \<Rightarrow>
                    Inr (a\<lparr> grid_topology :=
                             (grid_topology a)\<lparr> nodes :=
                                update_energy_of (nodes (grid_topology a)) i e \<rparr> \<rparr>))))"

text \<open>
  The comprehension shared by \<open>update_connections\<close> and \<open>remove_connections\<close>:
  the connection lines whose coordinate rectangle Tk reports to overlap the item.
\<close>

definition connections_overlapping :: "tk_env \<Rightarrow> tk_canvas \<Rightarrow> int \<Rightarrow> int list" where
  "connections_overlapping env c i =
     filter (\<lambda>conn. i \<in> set (find_overlapping env c (canvas_coords c conn)))
       (canvas_find_withtag c Tag_connection)"

text \<open>
  \<open>update_connections\<close> moves one end of each such line.  Indexing a coordinate
  list that is too short raises \<open>IndexError\<close>.
\<close>

fun update_connections_loop ::
  "tk_canvas \<Rightarrow> int list \<Rightarrow> int \<Rightarrow> int \<Rightarrow> py_error + tk_canvas" where
  "update_connections_loop c [] x y = Inr c"
| "update_connections_loop c (conn # rest) x y =
     (case canvas_coords c conn of
        c0 # c1 # others \<Rightarrow>
          (if c0 = x \<and> c1 = y
           then (case others of
                   c2 # c3 # _ \<Rightarrow>
                     update_connections_loop
                       (canvas_set_coords c conn
                          [x + GRID_SIZE div 2, y + GRID_SIZE div 2, c2, c3]) rest x y
                 | _ \<Rightarrow> Inl IndexError)
           else update_connections_loop
                  (canvas_set_coords c conn
                     [c0, c1, x + GRID_SIZE div 2, y + GRID_SIZE div 2]) rest x y)
      | _ \<Rightarrow> Inl IndexError)"

definition update_connections :: "tk_env \<Rightarrow> app \<Rightarrow> int \<Rightarrow> int \<Rightarrow> int \<Rightarrow> py_error + app" where
  "update_connections env a i x y =
     (case update_connections_loop (canvas a)
             (connections_overlapping env (canvas a) i) x y of
        Inl e \<Rightarrow> Inl e
      | Inr c \<Rightarrow> Inr (a\<lparr> canvas := c \<rparr>))"

text \<open>
  \<open>update_node_position\<close>: the loop replaces the first node whose item matches by
  a newly constructed \<open>Node\<close> with the same type and energy, then stops; the flag
  tells whether a node matched.
\<close>

fun update_position_loop ::
  "tk_env \<Rightarrow> tk_canvas \<Rightarrow> node list \<Rightarrow> int \<Rightarrow> int \<Rightarrow> int \<Rightarrow> node list \<times> tk_canvas \<times> bool" where
  "update_position_loop env c [] i x y = ([], c, False)"
| "update_position_loop env c (n # ns) i x y =
     (if item n = i
      then (let (n', c') = Node_init env c (node_type n) x y (energy n) in (n' # ns, c', True))
      else (let (ns', c', found) = update_position_loop env c ns i x y in (n # ns', c', found)))"

definition update_node_position ::
  "tk_env \<Rightarrow> app \<Rightarrow> int \<Rightarrow> int \<Rightarrow> int \<Rightarrow> py_error + app" where
  "update_node_position env a i x y =
     (let (ns, c, found) = update_position_loop env (canvas a) (nodes (grid_topology a)) i x y
      in update_connections env
           (a\<lparr> grid_topology := (grid_topology a)\<lparr> nodes := ns \<rparr>,
               node_coords := (if found then (node_coords a)(i \<mapsto> (x, y)) else node_coords a),
               canvas := c \<rparr>) i x y)"

text \<open>\<open>remove_connections\<close> and \<open>remove_node\<close>.\<close>

definition remove_connections :: "tk_env \<Rightarrow> app \<Rightarrow> int \<Rightarrow> app" where
  "remove_connections env a i =
     (let connections_to_remove = connections_overlapping env (canvas a) i
      in a\<lparr> canvas := fold (\<lambda>conn c. canvas_delete c conn) connections_to_remove (canvas a),
            grid_topology := (grid_topology a)\<lparr> connections :=
               filter (\<lambda>(start, end). start \<noteq> i \<and> end \<noteq> i)
                 (connections (grid_topology a)) \<rparr> \<rparr>)"

definition remove_node :: "tk_env \<Rightarrow> app \<Rightarrow> int \<Rightarrow> app" where
  "remove_node env a i =
     (let c = canvas_delete_tag (canvas_delete (canvas a) i) (Tag_energy_of i)
      in remove_connections env
           (a\<lparr> canvas := c,
               grid_topology := (grid_topology a)\<lparr> nodes :=
                  filter (\<lambda>n. item n \<noteq> i) (nodes (grid_topology a)) \<rparr>,
               node_coords := (if i \<in> dom (node_coords a)
                               then (node_coords a)(i := None) else node_coords a) \<rparr>) i)"

text \<open>\<open>add_connection(start_item, end_item)\<close>.\<close>

definition add_connection :: "app \<Rightarrow> int \<Rightarrow> int \<Rightarrow> py_error + app" where
  "add_connection a start_item end_item =
     (if start_item \<noteq> end_item
      then (let start_coords = canvas_coords (canvas a) start_item;
                end_coords = canvas_coords (canvas a) end_item
            in if start_coords \<noteq> [] \<and> end_coords \<noteq> []
               then (case start_coords of
                       sx # sy # _ \<Rightarrow>
                         (case end_coords of
                            ex # ey # _ \<Rightarrow>
                              (let (line, c) =
                                     canvas_create (canvas a) [Tag_connection]
                                       [sx + GRID_SIZE div 2, sy + GRID_SIZE div 2,
                                        ex + GRID_SIZE div 2, ey + GRID_SIZE div 2]
                               in Inr (a\<lparr> canvas := canvas_tag_lower c line,
                                          grid_topology := (grid_topology a)\<lparr> connections :=
                                            connections (grid_topology a)
                                              @ [(start_item, end_item)] \<rparr> \<rparr>))
                          | _ \<Rightarrow> Inl IndexError)
                     | _ \<Rightarrow> Inl IndexError)
               else Inr a)
      else Inr a)"

section \<open>Security assessment\<close>

text \<open>
  \<open>random.sample\<close> belongs to Python's library.  For a population of at most 21
  elements it copies the population into a pool and, for \<open>i = 0, ..., k - 1\<close>,
  draws \<open>j = randbelow(n - i)\<close>, takes \<open>pool[j]\<close> and moves \<open>pool[n - i - 1]\<close>
  into the vacancy.  The random source is a parameter: \<open>randbelow i\<close> is the raw
  value behind the \<open>i\<close>-th draw, reduced to the requested range.  A sample larger
  than the population raises \<open>ValueError\<close>.
\<close>

fun sample_loop :: "(nat \<Rightarrow> nat) \<Rightarrow> nat \<Rightarrow> 'a list \<Rightarrow> nat \<Rightarrow> nat \<Rightarrow> 'a list" where
  "sample_loop randbelow n pool i 0 = []"
| "sample_loop randbelow n pool i (Suc k) =
     (let j = randbelow i mod (n - i)
      in pool ! j # sample_loop randbelow n (pool[j := pool ! (n - i - 1)]) (Suc i) k)"

definition random_sample :: "(nat \<Rightarrow> nat) \<Rightarrow> 'a list \<Rightarrow> nat \<Rightarrow> py_error + 'a list" where
  "random_sample randbelow population k =
     (let n = length population
      in if k \<le> n then Inr (sample_loop randbelow n population 0 k) else Inl ValueError)"

text \<open>\<open>round(x, 2)\<close>: to two decimals, a tie to the even neighbour.\<close>

definition py_round2 :: "real \<Rightarrow> real" where
  "py_round2 x =
     (let y = x * 100; f = \<lfloor>y\<rfloor>; d = y - of_int f
      in of_int (if d < 1 / 2 then f else if d > 1 / 2 then f + 1
                 else if even f then f else f + 1) / 100)"

definition suggestions_catalog :: "string list" where
  "suggestions_catalog =
     [''Implement advanced encryption'', ''Upgrade firewall systems'',
      ''Conduct regular security audits'']"

record assessment =
  vulnerability_score :: real
  suggestions :: "string list"

text \<open>
  \<open>perform_security_assessment\<close>: \<open>u\<close> is the value of \<open>random.random()\<close> behind
  \<open>random.uniform(1, 10)\<close>.
\<close>

definition perform_security_assessment ::
  "real \<Rightarrow> (nat \<Rightarrow> nat) \<Rightarrow> py_error + assessment" where
  "perform_security_assessment u randbelow =
     (let score = 1 + (10 - 1) * u
      in case random_sample randbelow suggestions_catalog 2 of
           Inl e \<Rightarrow> Inl e
         | Inr s \<Rightarrow> Inr \<lparr> vulnerability_score = py_round2 score, suggestions = s \<rparr>)"

section \<open>The path efficiency as the specification words it\<close>

text \<open>
  The efficiency of one edge from the energies of its endpoints, the energies of
  the endpoints of an edge when both lookups succeed, and the sum of the
  efficiencies of those edges divided by the number of all edges.
\<close>

definition edge_efficiency :: "real \<Rightarrow> real \<Rightarrow> real" where
  "edge_efficiency a b = 1 - \<bar>a - b\<bar> / max \<bar>a\<bar> (max \<bar>b\<bar> 1)"

definition endpoint_energies :: "node list \<Rightarrow> int \<times> int \<Rightarrow> (real \<times> real) option" where
  "endpoint_energies ns c =
     (case find_node ns (fst c) of
        None \<Rightarrow> None
      | Some a \<Rightarrow> (case find_node ns (snd c) of
                    None \<Rightarrow> None
                  | Some b \<Rightarrow> Some (energy a, energy b)))"

definition spec_path_efficiency :: "topology \<Rightarrow> real" where
  "spec_path_efficiency t =
     sum_list (map (\<lambda>(a, b). edge_efficiency a b)
                 (List.map_filter (endpoint_energies (nodes t)) (connections t)))
     / real (length (connections t))"

text \<open>Every endpoint of every connection is the item of a node of the topology.\<close>

definition edges_valid :: "topology \<Rightarrow> bool" where
  "edges_valid t =
     list_all (\<lambda>(start, end). find_node (nodes t) start \<noteq> None \<and> find_node (nodes t) end \<noteq> None)
       (connections t)"

section \<open>Example data\<close>

definition generator_node :: "int \<Rightarrow> real \<Rightarrow> node" where
  "generator_node i e = \<lparr> node_type = ''Generator'', item = i, energy = e \<rparr>"

definition city_node :: "int \<Rightarrow> real \<Rightarrow> node" where
  "city_node i e = \<lparr> node_type = ''City'', item = i, energy = e \<rparr>"

definition building_node :: "int \<Rightarrow> real \<Rightarrow> node" where
  "building_node i e = \<lparr> node_type = ''Building'', item = i, energy = e \<rparr>"

text \<open>
  An environment in which every image loads and Tk reports no overlapping item.
\<close>

definition example_env :: tk_env where
  "example_env = \<lparr> image_loads = (\<lambda>_. True), find_overlapping = (\<lambda>c cs. []) \<rparr>"

text \<open>
  A session: on a canvas of 100 by 100 a Generator is added near the origin, the
  menu is switched to City and a City is added, the energies are set to 100 and 40,
  and the two nodes are connected.
\<close>

definition scenario_two_nodes :: app where
  "scenario_two_nodes =
     add_node example_env
       ((add_node example_env (GridApp_init 100 100) 10 10)\<lparr> node_type_var := ''City'' \<rparr>)
       110 10"

definition scenario_connected :: "py_error + app" where
  "scenario_connected =
     (case set_node_energy scenario_two_nodes [5] (Some 100) of
        Inl e \<Rightarrow> Inl e
      | Inr a \<Rightarrow>
          (case set_node_energy a [7] (Some 40) of
             Inl e \<Rightarrow> Inl e
           | Inr a' \<Rightarrow> add_connection a' 5 7))"

text \<open>The state that this session reaches (lemma \<open>scenario_connected_eq\<close>).\<close>

definition connected_canvas :: tk_canvas where
  "connected_canvas =
     \<lparr> next_id = 10,
       items =
         [(9, \<lparr> tags = [Tag_connection], coords = [25, 25, 125, 25] \<rparr>),
          (1, \<lparr> tags = [Tag_grid], coords = [0, 0, 0, 100] \<rparr>),
          (2, \<lparr> tags = [Tag_grid], coords = [50, 0, 50, 100] \<rparr>),
          (3, \<lparr> tags = [Tag_grid], coords = [0, 0, 100, 0] \<rparr>),
          (4, \<lparr> tags = [Tag_grid], coords = [0, 50, 100, 50] \<rparr>),
          (5, \<lparr> tags = [Tag_node_type ''Generator'', Tag_node], coords = [0, 0] \<rparr>),
          (6, \<lparr> tags = [Tag_energy, Tag_energy_of 5], coords = [25, 60] \<rparr>),
          (7, \<lparr> tags = [Tag_node_type ''City'', Tag_node], coords = [100, 0] \<rparr>),
          (8, \<lparr> tags = [Tag_energy, Tag_energy_of 7], coords = [125, 60] \<rparr>)] \<rparr>"

definition connected_app :: app where
  "connected_app =
     \<lparr> grid_topology =
         \<lparr> nodes = [generator_node 5 100, city_node 7 40], connections = [(5, 7)] \<rparr>,
       node_type_var = ''City'',
       node_coords = [5 \<mapsto> (0, 0), 7 \<mapsto> (100, 0)],
       canvas = connected_canvas \<rparr>"

section \<open>Evaluation rules\<close>

lemmas eval_simps =
  simulate_performance_def calculate_path_efficiency_def truediv_def
  total_energy_def total_demand_def find_node_def generator_node_def city_node_def
  producer_types_def consumer_types_def

section \<open>The simulator\<close>

subsection \<open>Path efficiency\<close>

lemma efficiency_divisor_nonzero: "max \<bar>a\<bar> (max \<bar>b\<bar> 1) \<noteq> (0::real)"
proof -
  have "1 \<le> max \<bar>a\<bar> (max \<bar>b\<bar> (1::real))" by simp
  then show ?thesis by linarith
qed

lemma path_loop_sum:
  "path_loop ns cs acc =
     Inr (acc + sum_list (map (\<lambda>(a, b). edge_efficiency a b)
                            (List.map_filter (endpoint_energies ns) cs)))"
proof (induction cs arbitrary: acc)
  case Nil
  show ?case by (simp add: List.map_filter_simps)
next
  case (Cons c cs)
  obtain s e where c: "c = (s, e)" by (cases c)
  show ?case
    by (simp add: c Cons.IH List.map_filter_simps endpoint_energies_def truediv_def
        edge_efficiency_def efficiency_divisor_nonzero split: option.split)
qed

lemma path_efficiency_empty: "connections t = [] \<Longrightarrow> calculate_path_efficiency t = Inr 0.5"
  by (simp add: calculate_path_efficiency_def)

lemma path_efficiency_sum:
  "connections t \<noteq> [] \<Longrightarrow>
   calculate_path_efficiency t =
     Inr (sum_list (map (\<lambda>(a, b). edge_efficiency a b)
                      (List.map_filter (endpoint_energies (nodes t)) (connections t)))
          / real (length (connections t)))"
  by (simp add: calculate_path_efficiency_def path_loop_sum truediv_def)

text \<open>
  C4.  When the topology has at least one connection, \<open>calculate_path_efficiency\<close>
  returns the sum of \<open>1 - |a - b| / max(|a|, |b|, 1)\<close> over exactly the connections
  both of whose endpoint lookups succeed, divided by the number of all connections,
  those with a failed lookup included.
\<close>

theorem path_efficiency_formula:
  "connections t \<noteq> [] \<Longrightarrow> calculate_path_efficiency t = Inr (spec_path_efficiency t)"
  by (simp add: path_efficiency_sum spec_path_efficiency_def)

theorem path_efficiency_formula_witness:
  "connections \<lparr> nodes = [generator_node 1 100, city_node 2 40],
                 connections = [(1, 2), (1, 9)] \<rparr> \<noteq> []
   \<and> calculate_path_efficiency
       \<lparr> nodes = [generator_node 1 100, city_node 2 40], connections = [(1, 2), (1, 9)] \<rparr>
     = Inr (1 / 5)"
  using path_efficiency_formula
    [of "\<lparr> nodes = [generator_node 1 100, city_node 2 40], connections = [(1, 2), (1, 9)] \<rparr>"]
  by (simp add: spec_path_efficiency_def endpoint_energies_def edge_efficiency_def
      List.map_filter_simps eval_simps)

lemma edge_efficiency_le_1: "edge_efficiency a b \<le> 1"
  by (simp add: edge_efficiency_def)

lemma edge_efficiency_ge_m1: "- 1 \<le> edge_efficiency a b"
proof -
  let ?d = "max \<bar>a\<bar> (max \<bar>b\<bar> 1)"
  have d: "0 < ?d" by simp
  have "\<bar>a - b\<bar> \<le> 2 * ?d" by (simp add: max_def abs_if)
  then have "\<bar>a - b\<bar> / ?d \<le> 2" using d by (simp add: pos_divide_le_eq)
  then show ?thesis by (simp add: edge_efficiency_def)
qed

lemma edge_efficiency_nonneg:
  assumes "0 \<le> a" "0 \<le> b"
  shows "0 \<le> edge_efficiency a b"
proof -
  let ?d = "max \<bar>a\<bar> (max \<bar>b\<bar> 1)"
  have d: "0 < ?d" by simp
  have "\<bar>a - b\<bar> \<le> ?d" using assms by (simp add: max_def abs_if)
  then have "\<bar>a - b\<bar> / ?d \<le> 1" using d by (simp add: pos_divide_le_eq)
  then show ?thesis by (simp add: edge_efficiency_def)
qed

lemma sum_list_abs_bound:
  fixes xs :: "real list"
  shows "(\<forall>x\<in>set xs. - 1 \<le> x \<and> x \<le> 1) \<Longrightarrow>
     - real (length xs) \<le> sum_list xs \<and> sum_list xs \<le> real (length xs)"
  by (induction xs) auto

lemma length_map_filter_le: "length (List.map_filter f xs) \<le> length xs"
  by (simp add: List.map_filter_def)

lemma find_node_in_set: "find_node ns i = Some n \<Longrightarrow> n \<in> set ns"
  by (auto simp: find_node_def find_Some_iff)

lemma endpoint_energies_nonneg:
  assumes "\<forall>n\<in>set ns. 0 \<le> energy n"
    and "(a, b) \<in> set (List.map_filter (endpoint_energies ns) cs)"
  shows "0 \<le> a \<and> 0 \<le> b"
  using assms
proof (induction cs)
  case Nil
  then show ?case by (simp add: List.map_filter_simps)
next
  case (Cons c cs)
  then show ?case
    by (auto simp: List.map_filter_simps endpoint_energies_def
        split: option.splits dest!: find_node_in_set)
qed

text \<open>
  C2, as the claim states it: the path efficiency lies in \<open>[0, 1]\<close> for every
  topology.  A Generator with energy 100 connected to a City with energy -100 gives
  \<open>1 - 200 / 100 = -1\<close>.
\<close>

theorem opposite_signs_efficiency:
  "calculate_path_efficiency
     \<lparr> nodes = [generator_node 1 100, city_node 2 (- 100)], connections = [(1, 2)] \<rparr>
   = Inr (- 1)"
  by (simp add: eval_simps)

text \<open>
  In exact arithmetic the value lies in \<open>[-1, 1]\<close>, and in \<open>[0, 1]\<close> when no energy
  is negative.
\<close>

lemma path_efficiency_exact_bounds:
  "\<exists>p. calculate_path_efficiency t = Inr p \<and> - 1 \<le> p \<and> p \<le> 1 \<and>
       ((\<forall>n\<in>set (nodes t). 0 \<le> energy n) \<longrightarrow> 0 \<le> p)"
proof (cases "connections t = []")
  case True
  then have "calculate_path_efficiency t = Inr (1 / 2)"
    by (simp add: path_efficiency_empty)
  then show ?thesis by (intro exI [of _ "1 / 2"]) simp
next
  case False
  let ?es = "List.map_filter (endpoint_energies (nodes t)) (connections t)"
  let ?xs = "map (\<lambda>(a, b). edge_efficiency a b) ?es"
  let ?n = "real (length (connections t))"
  have n: "0 < ?n" using False by simp
  have "\<forall>x\<in>set ?xs. - 1 \<le> x \<and> x \<le> 1"
    by (auto simp: edge_efficiency_le_1 edge_efficiency_ge_m1)
  then have "- real (length ?xs) \<le> sum_list ?xs \<and> sum_list ?xs \<le> real (length ?xs)"
    by (rule sum_list_abs_bound)
  moreover have "real (length ?xs) \<le> ?n"
    using length_map_filter_le [of "endpoint_energies (nodes t)" "connections t"] by simp
  ultimately have b: "- ?n \<le> sum_list ?xs" "sum_list ?xs \<le> ?n" by linarith+
  have lo: "- 1 \<le> sum_list ?xs / ?n" using b(1) n by (simp add: pos_le_divide_eq)
  have hi: "sum_list ?xs / ?n \<le> 1" using b(2) n by (simp add: pos_divide_le_eq)
  have nn: "0 \<le> sum_list ?xs / ?n" if h: "\<forall>n\<in>set (nodes t). 0 \<le> energy n"
  proof -
    have "\<forall>x\<in>set ?xs. 0 \<le> x"
      using endpoint_energies_nonneg [OF h] by (auto intro: edge_efficiency_nonneg)
    then have "0 \<le> sum_list ?xs" by (intro sum_list_nonneg) blast
    then show ?thesis using n by simp
  qed
  show ?thesis
    using path_efficiency_sum [OF False] lo hi nn by simp
qed

text \<open>
  Where exact arithmetic follows the program: when every energy has a magnitude of
  at most half the largest double, or every energy lies between 0 and the largest
  double, no difference that the loop forms exceeds the largest double.  Two
  energies of opposite sign beyond that give a difference that overflows.
\<close>

lemma max_float_pos: "0 < max_float"
  by (simp add: max_float_def)

lemma endpoint_energies_of_nodes:
  assumes "(a, b) \<in> set (List.map_filter (endpoint_energies ns) cs)"
  shows "\<exists>n\<in>set ns. \<exists>m\<in>set ns. a = energy n \<and> b = energy m"
  using assms
proof (induction cs)
  case Nil
  then show ?case by (simp add: List.map_filter_simps)
next
  case (Cons c cs)
  then show ?case
    by (auto simp: List.map_filter_simps endpoint_energies_def
        split: option.splits dest!: find_node_in_set)
qed

lemma energy_diff_in_range:
  assumes "\<forall>n\<in>set ns. \<bar>energy n\<bar> \<le> max_float / 2"
    and "(a, b) \<in> set (List.map_filter (endpoint_energies ns) cs)"
  shows "\<bar>a - b\<bar> \<le> max_float"
proof -
  obtain n m where "n \<in> set ns" "m \<in> set ns" "a = energy n" "b = energy m"
    using endpoint_energies_of_nodes [OF assms(2)] by blast
  then have "\<bar>a\<bar> \<le> max_float / 2" "\<bar>b\<bar> \<le> max_float / 2"
    using assms(1) by auto
  then show ?thesis by linarith
qed

lemma energy_diff_nonneg_in_range:
  assumes "\<forall>n\<in>set ns. 0 \<le> energy n \<and> energy n \<le> max_float"
    and "(a, b) \<in> set (List.map_filter (endpoint_energies ns) cs)"
  shows "\<bar>a - b\<bar> \<le> max_float"
proof -
  obtain n m where "n \<in> set ns" "m \<in> set ns" "a = energy n" "b = energy m"
    using endpoint_energies_of_nodes [OF assms(2)] by blast
  then have "0 \<le> a \<and> a \<le> max_float" "0 \<le> b \<and> b \<le> max_float"
    using assms(1) by auto
  then show ?thesis by linarith
qed

lemma energy_diff_out_of_range: "max_float < \<bar>max_float - (- max_float)\<bar>"
  using max_float_pos by simp

text \<open>
  C2, amended: for every topology in which every energy has a magnitude of at most
  half the largest double, \<open>calculate_path_efficiency\<close> returns a value in
  \<open>[-1, 1]\<close> (an efficiency between -100 and 100 percent); for every topology in
  which every energy lies between 0 and the largest double, it returns a value in
  \<open>[0, 1]\<close>.
\<close>

theorem path_efficiency_bounds:
  "\<exists>p. calculate_path_efficiency t = Inr p \<and>
       ((\<forall>n\<in>set (nodes t). \<bar>energy n\<bar> \<le> max_float / 2) \<longrightarrow> - 1 \<le> p \<and> p \<le> 1) \<and>
       ((\<forall>n\<in>set (nodes t). 0 \<le> energy n \<and> energy n \<le> max_float) \<longrightarrow>
          0 \<le> p \<and> p \<le> 1)"
  using path_efficiency_exact_bounds [of t] by auto

theorem path_efficiency_bounds_witness:
  "calculate_path_efficiency
     \<lparr> nodes = [generator_node 1 100, city_node 2 40], connections = [(1, 2), (2, 1)] \<rparr>
   = Inr (2 / 5)
   \<and> \<bar>energy (generator_node 1 100)\<bar> \<le> max_float / 2
   \<and> \<bar>energy (city_node 2 40)\<bar> \<le> max_float / 2
   \<and> 0 \<le> energy (generator_node 1 100) \<and> energy (generator_node 1 100) \<le> max_float
   \<and> 0 \<le> energy (city_node 2 40) \<and> energy (city_node 2 40) \<le> max_float"
  using path_efficiency_bounds
    [of "\<lparr> nodes = [generator_node 1 100, city_node 2 40], connections = [(1, 2), (2, 1)] \<rparr>"]
  by (simp add: eval_simps max_float_def)

subsection \<open>Performance\<close>

text \<open>
  C10.  On the completely empty topology (no nodes, no connections) the simulator
  returns without error: energy output 0, energy demand 0, efficiency 50 percent and
  load balance 0 percent.  The button handler of the application never passes this
  topology on: it stops with a warning.
\<close>

theorem empty_topology_performance:
  "simulate_performance \<lparr> nodes = [], connections = [] \<rparr> =
     Inr \<lparr> total_energy_output = 0, total_energy_demand = 0,
           average_efficiency = 50, load_balance = 0 \<rparr>
   \<and> GridApp_simulate_performance \<lparr> nodes = [], connections = [] \<rparr> = None"
  by (simp add: GridApp_simulate_performance_def eval_simps)

text \<open>
  C3.  With exactly one Generator of energy 100 and one City of energy 40, held by
  distinct items and joined by one connection (in either direction, the nodes in
  either order), the simulator returns energy output 40, energy demand 40, efficiency
  40 percent and load balance 100 percent.
\<close>

theorem generator_city_edge:
  assumes "a \<noteq> b"
    and "ns = [generator_node a 100, city_node b 40] \<or> ns = [city_node b 40, generator_node a 100]"
    and "cs = [(a, b)] \<or> cs = [(b, a)]"
  shows "simulate_performance \<lparr> nodes = ns, connections = cs \<rparr> =
     Inr \<lparr> total_energy_output = 40, total_energy_demand = 40,
           average_efficiency = 40, load_balance = 100 \<rparr>"
  using assms by (auto simp add: eval_simps)

theorem generator_city_edge_witness:
  "(1::int) \<noteq> 2 \<and>
   simulate_performance
     \<lparr> nodes = [generator_node 1 100, city_node 2 40], connections = [(1, 2)] \<rparr> =
     Inr \<lparr> total_energy_output = 40, total_energy_demand = 40,
           average_efficiency = 40, load_balance = 100 \<rparr>"
  using generator_city_edge [of 1 2 "[generator_node 1 100, city_node 2 40]" "[(1, 2)]"]
  by simp

text \<open>
  C5.  The claim is that the divisor \<open>total_demand + 0.001\<close> is never zero, also for
  a negative demand.  For a City of energy -0.001 the divisor is zero and
  \<open>simulate_performance\<close> raises \<open>ZeroDivisionError\<close>.
\<close>

theorem epsilon_divisor_zero:
  "total_demand \<lparr> nodes = [generator_node 1 100, city_node 2 (- 0.001)],
                  connections = [(1, 2)] \<rparr> + 0.001 = 0
   \<and> simulate_performance
       \<lparr> nodes = [generator_node 1 100, city_node 2 (- 0.001)], connections = [(1, 2)] \<rparr>
     = Inl ZeroDivisionError"
  by (simp add: eval_simps)

text \<open>
  Without connections, whatever \<open>simulate_performance\<close> returns carries an
  efficiency of 50 percent.
\<close>

lemma no_edges_efficiency:
  assumes "connections t = []" and "simulate_performance t = Inr p"
  shows "average_efficiency p = 50"
  using assms
  by (auto simp add: simulate_performance_def path_efficiency_empty truediv_def
      split: if_splits)

text \<open>
  C8.  The claim is that every topology with at least one node and no connection
  gives an efficiency of 50 percent, whatever the types and energies.  For a single
  City of energy -0.001 and no connection, the path efficiency is 0.5 but
  \<open>simulate_performance\<close> returns nothing: it raises \<open>ZeroDivisionError\<close> in the
  load balance.
\<close>

theorem no_edges_division_by_zero:
  "calculate_path_efficiency \<lparr> nodes = [city_node 1 (- 0.001)], connections = [] \<rparr> = Inr 0.5
   \<and> simulate_performance \<lparr> nodes = [city_node 1 (- 0.001)], connections = [] \<rparr>
     = Inl ZeroDivisionError"
  by (simp add: eval_simps)

section \<open>The editor\<close>

subsection \<open>The example session\<close>

lemma range_step_100: "range_step 100 GRID_SIZE = [0, 50]"
  by (simp add: range_step_def GRID_SIZE_def eval_nat_numeral)

lemma GridApp_init_100:
  "GridApp_init 100 100 =
     \<lparr> grid_topology = \<lparr> nodes = [], connections = [] \<rparr>,
       node_type_var = ''Generator'',
       node_coords = Map.empty,
       canvas = \<lparr> next_id = 5,
                  items = [(1, \<lparr> tags = [Tag_grid], coords = [0, 0, 0, 100] \<rparr>),
                           (2, \<lparr> tags = [Tag_grid], coords = [50, 0, 50, 100] \<rparr>),
                           (3, \<lparr> tags = [Tag_grid], coords = [0, 0, 100, 0] \<rparr>),
                           (4, \<lparr> tags = [Tag_grid], coords = [0, 50, 100, 50] \<rparr>)] \<rparr> \<rparr>"
  by (simp add: GridApp_init_def draw_grid_def range_step_100 canvas_delete_tag_def
      canvas_create_def)

lemma snap_10: "py_round_div 10 GRID_SIZE * GRID_SIZE = 0"
  by (simp add: py_round_div_def GRID_SIZE_def)

lemma snap_110: "py_round_div 110 GRID_SIZE * GRID_SIZE = 100"
  by (simp add: py_round_div_def GRID_SIZE_def)

lemma scenario_two_nodes_eq:
  "scenario_two_nodes =
     connected_app\<lparr> grid_topology :=
         \<lparr> nodes = [generator_node 5 0, city_node 7 0], connections = [] \<rparr>,
       canvas := connected_canvas\<lparr> next_id := 9, items := tl (items connected_canvas) \<rparr> \<rparr>"
  by (simp add: scenario_two_nodes_def GridApp_init_100 add_node_def snap_10 snap_110
      Node_init_def example_env_def canvas_create_def connected_app_def connected_canvas_def
      generator_node_def city_node_def)

lemma scenario_connected_eq: "scenario_connected = Inr connected_app"
  by (simp add: scenario_connected_def scenario_two_nodes_eq set_node_energy_def
      add_connection_def connected_app_def connected_canvas_def find_node_def
      generator_node_def city_node_def canvas_coords_def canvas_create_def canvas_tag_lower_def
      GRID_SIZE_def Let_def)

subsection \<open>Moving a node\<close>

text \<open>
  What a move keeps and what it changes, in any state: the connection list, the
  energies and the node types stay as they were, and the node that is replaced gets
  the next canvas identifier as its item.  So when the items of the nodes are
  distinct and the moved item is not the identifier the canvas hands out next (it
  never is: the item is on the canvas already), no node carries the moved item
  afterwards.
\<close>

lemma Node_init_node:
  "fst (Node_init env c nt x y e) = \<lparr> node_type = nt, item = next_id c, energy = e \<rparr>"
  by (simp add: Node_init_def canvas_create_def Let_def)

lemma update_position_loop_energy:
  "map energy (fst (update_position_loop env c ns i x y)) = map energy ns"
  by (induction ns) (simp_all add: split_beta Let_def Node_init_node)

lemma update_position_loop_node_type:
  "map node_type (fst (update_position_loop env c ns i x y)) = map node_type ns"
  by (induction ns) (simp_all add: split_beta Let_def Node_init_node)

lemma update_position_loop_fresh:
  assumes "find_node ns i \<noteq> None" and "distinct (map item ns)" and "next_id c \<noteq> i"
  shows "find_node (fst (update_position_loop env c ns i x y)) i = None"
  using assms
proof (induction ns)
  case Nil
  then show ?case by (simp add: find_node_def)
next
  case (Cons n ns)
  show ?case
  proof (cases "item n = i")
    case True
    have "i \<notin> item ` set ns" using Cons.prems(2) True by auto
    then have "find_node ns i = None" by (auto simp: find_node_def find_None_iff)
    then show ?thesis
      using True Cons.prems(3)
      by (simp add: split_beta Let_def Node_init_node find_node_def)
  next
    case False
    then show ?thesis
      using Cons by (simp add: split_beta Let_def find_node_def)
  qed
qed

lemma update_node_position_topology:
  assumes "update_node_position env a i x y = Inr a'"
  shows "grid_topology a' =
     (grid_topology a)\<lparr> nodes :=
        fst (update_position_loop env (canvas a) (nodes (grid_topology a)) i x y) \<rparr>"
  using assms
  by (auto simp add: update_node_position_def update_connections_def split_beta Let_def
      split: sum.splits)

lemma update_node_position_keeps:
  assumes "update_node_position env a i x y = Inr a'"
  shows "connections (grid_topology a') = connections (grid_topology a)
     \<and> map energy (nodes (grid_topology a')) = map energy (nodes (grid_topology a))
     \<and> map node_type (nodes (grid_topology a')) = map node_type (nodes (grid_topology a))"
  by (simp add: update_node_position_topology [OF assms] update_position_loop_energy
      update_position_loop_node_type)

lemma update_node_position_detaches:
  assumes "update_node_position env a i x y = Inr a'"
    and "find_node (nodes (grid_topology a)) i \<noteq> None"
    and "distinct (map item (nodes (grid_topology a)))"
    and "next_id (canvas a) \<noteq> i"
  shows "find_node (nodes (grid_topology a')) i = None"
  by (simp add: update_node_position_topology [OF assms(1)]
      update_position_loop_fresh [OF assms(2,3,4)])

text \<open>
  C1.  The claim is that moving a node keeps every edge attached to it.  In the
  example session the Generator is item 5 and the connection is \<open>(5, 7)\<close>, with
  path efficiency 0.4.  \<open>update_node_position\<close> for item 5 keeps the type, the
  energy and the connection list, but the node it puts into the list is drawn anew
  and carries the fresh item 10: no node has item 5 any more, the lookup for the
  connection fails, and the path efficiency drops to 0.
\<close>

theorem move_detaches_connection:
  "find_node (nodes (grid_topology connected_app)) 5 = Some (generator_node 5 100)
   \<and> calculate_path_efficiency (grid_topology connected_app) = Inr (2 / 5)
   \<and> map_sum id grid_topology (update_node_position example_env connected_app 5 50 50) =
       Inr \<lparr> nodes = [generator_node 10 100, city_node 7 40], connections = [(5, 7)] \<rparr>
   \<and> find_node [generator_node 10 100, city_node 7 40] 5 = None
   \<and> calculate_path_efficiency
       \<lparr> nodes = [generator_node 10 100, city_node 7 40], connections = [(5, 7)] \<rparr> = Inr 0"
  by (simp add: connected_app_def connected_canvas_def update_node_position_def
      update_connections_def connections_overlapping_def canvas_find_withtag_def
      Node_init_def example_env_def canvas_create_def eval_simps)

subsection \<open>Removing a node\<close>

lemma find_node_filter:
  "find_node (filter (\<lambda>m. item m \<noteq> n) ns) i = (if i = n then None else find_node ns i)"
  by (induction ns) (auto simp: find_node_def)

lemma remove_node_topology:
  "grid_topology (remove_node env a n) =
     (grid_topology a)\<lparr> nodes := filter (\<lambda>m. item m \<noteq> n) (nodes (grid_topology a)),
                        connections := filter (\<lambda>(start, end). start \<noteq> n \<and> end \<noteq> n)
                                         (connections (grid_topology a)) \<rparr>"
  by (simp add: remove_node_def remove_connections_def Let_def)

text \<open>
  C6.  After \<open>remove_node\<close> for an item, no node of the topology has that item and
  no connection starts or ends at it; and when every connection referred to present
  nodes before, every connection refers to present nodes afterwards.
\<close>

theorem remove_node_cascade:
  "n \<notin> item ` set (nodes (grid_topology (remove_node env a n)))
   \<and> n \<notin> fst ` set (connections (grid_topology (remove_node env a n)))
   \<and> n \<notin> snd ` set (connections (grid_topology (remove_node env a n)))
   \<and> (edges_valid (grid_topology a) \<longrightarrow> edges_valid (grid_topology (remove_node env a n)))"
  by (auto simp add: remove_node_topology edges_valid_def list_all_iff find_node_filter)

theorem remove_node_cascade_witness:
  "edges_valid \<lparr> nodes = [generator_node 5 100, city_node 7 40, building_node 12 10],
                 connections = [(5, 7), (7, 12)] \<rparr>
   \<and> grid_topology
       (remove_node example_env
          (connected_app\<lparr> grid_topology :=
             \<lparr> nodes = [generator_node 5 100, city_node 7 40, building_node 12 10],
               connections = [(5, 7), (7, 12)] \<rparr> \<rparr>) 5)
     = \<lparr> nodes = [city_node 7 40, building_node 12 10], connections = [(7, 12)] \<rparr>
   \<and> edges_valid \<lparr> nodes = [city_node 7 40, building_node 12 10], connections = [(7, 12)] \<rparr>"
  using remove_node_cascade [of 5 example_env
      "connected_app\<lparr> grid_topology :=
         \<lparr> nodes = [generator_node 5 100, city_node 7 40, building_node 12 10],
           connections = [(5, 7), (7, 12)] \<rparr> \<rparr>"]
  by (simp add: remove_node_topology edges_valid_def find_node_def generator_node_def
      city_node_def building_node_def)

subsection \<open>Connecting a node with itself\<close>

text \<open>
  C7, as the claim states it: \<open>add_connection\<close> with twice the same item fails with
  an error.  In the example session, with the existing item 5, it returns normally.
\<close>

theorem self_connection_no_error: "add_connection connected_app 5 5 = Inr connected_app"
  by (simp add: add_connection_def)

text \<open>
  C7, amended: for every item, present or not, \<open>add_connection\<close> with twice that
  item returns without an error and leaves the whole state, hence the connection
  list, unchanged.
\<close>

theorem self_connection_ignored: "add_connection a x x = Inr a"
  by (simp add: add_connection_def)

section \<open>The security assessment\<close>

lemma sample_loop_2:
  "sample_loop r n pool i 2 =
     (let j = r i mod (n - i); pool' = pool[j := pool ! (n - i - 1)];
          j' = r (Suc i) mod (n - Suc i)
      in [pool ! j, pool' ! j'])"
  by (simp add: eval_nat_numeral Let_def)

lemma pick_two:
  assumes "distinct [a, b, c]" and "j < 3" and "j' < 2"
  shows "set [[a, b, c] ! j, [a, b, c][j := c] ! j'] \<subseteq> {a, b, c}
     \<and> distinct [[a, b, c] ! j, [a, b, c][j := c] ! j']"
proof -
  have j: "j = 0 \<or> j = Suc 0 \<or> j = Suc (Suc 0)" using assms(2) by arith
  have j': "j' = 0 \<or> j' = Suc 0" using assms(3) by arith
  show ?thesis using assms(1) j j' by (elim disjE) auto
qed

lemma sample_two_of_three:
  assumes "distinct [a, b, c]"
  shows "length (sample_loop r 3 [a, b, c] 0 2) = 2
     \<and> set (sample_loop r 3 [a, b, c] 0 2) \<subseteq> {a, b, c}
     \<and> distinct (sample_loop r 3 [a, b, c] 0 2)"
proof -
  have s: "sample_loop r 3 [a, b, c] 0 2 =
      [[a, b, c] ! (r 0 mod 3), [a, b, c][r 0 mod 3 := c] ! (r (Suc 0) mod 2)]"
    by (simp add: sample_loop_2 Let_def)
  show ?thesis
    unfolding s using pick_two [OF assms, of "r 0 mod 3" "r (Suc 0) mod 2"] by simp
qed

lemma sample_two_of_pool:
  assumes "distinct pool" and "length pool = 3"
  shows "length (sample_loop r 3 pool 0 2) = 2
     \<and> set (sample_loop r 3 pool 0 2) \<subseteq> set pool
     \<and> distinct (sample_loop r 3 pool 0 2)"
proof -
  obtain a b c where p: "pool = [a, b, c]"
    using assms(2) by (auto simp: length_Suc_conv eval_nat_numeral)
  show ?thesis
    using sample_two_of_three [of a b c r] assms(1) unfolding p by simp
qed

lemma catalog_distinct: "distinct suggestions_catalog"
  by (simp add: suggestions_catalog_def)

lemma catalog_length: "length suggestions_catalog = 3"
  by (simp add: suggestions_catalog_def)

lemma assessment_suggestions:
  "perform_security_assessment u randbelow =
     Inr \<lparr> vulnerability_score = py_round2 (1 + (10 - 1) * u),
           suggestions = sample_loop randbelow 3 suggestions_catalog 0 2 \<rparr>"
  by (simp add: perform_security_assessment_def random_sample_def catalog_length)

text \<open>
  C9.  For every state of the random source, \<open>perform_security_assessment\<close> returns
  a list of exactly two suggestions, both from the catalog of three, and different
  from each other.
\<close>

theorem suggestions_two_distinct:
  "\<exists>r. perform_security_assessment u randbelow = Inr r
     \<and> length (suggestions r) = 2
     \<and> set (suggestions r) \<subseteq> set suggestions_catalog
     \<and> distinct (suggestions r)"
  using sample_two_of_pool [OF catalog_distinct catalog_length, of randbelow]
  by (simp add: assessment_suggestions)

end
